theory Spec2Isabelle
  imports Main "HOL-Library.Sublist"
begin

section \<open>Errors\<close>

text \<open>
  A Go \<open>error\<close> is an interface value. The dynamic types that occur in
  \<open>cmd/minikube/cmd/config/util.go\<close> are: the string error made by \<open>errors.New\<close> and
  \<open>fmt.Errorf\<close>, \<open>*strconv.NumError\<close> (fields \<open>Func\<close>, \<open>Num\<close>, \<open>Err\<close>) returned by
  \<open>strconv.Atoi\<close> and \<open>strconv.ParseBool\<close>, and the wrapper made by \<open>errors.Wrapf\<close>
  (a cause and a message). \<open>None :: error option\<close> is the \<open>nil\<close> error.
\<close>

datatype error =
    ErrorString string
  | NumError string string error
  | Wrapf error string

definition ErrSyntax :: error where
  "ErrSyntax = ErrorString ''invalid syntax''"

definition ErrRange :: error where
  "ErrRange = ErrorString ''value out of range''"

definition syntaxError :: "string \<Rightarrow> string \<Rightarrow> error" where
  "syntaxError fn str = NumError fn str ErrSyntax"

definition rangeError :: "string \<Rightarrow> string \<Rightarrow> error" where
  "rangeError fn str = NumError fn str ErrRange"

text \<open>
  The text of an error, its \<open>Error()\<close> method. A \<open>NumError\<close> prints its \<open>Num\<close> through
  \<open>strconv.Quote\<close>, which is standard-library code with Unicode tables; it is the
  parameter \<open>Quote\<close> here.
\<close>

fun Error :: "(string \<Rightarrow> string) \<Rightarrow> error \<Rightarrow> string" where
  "Error Quote (ErrorString s) = s"
| "Error Quote (NumError fn num err) =
     ''strconv.'' @ fn @ '': parsing '' @ Quote num @ '': '' @ Error Quote err"
| "Error Quote (Wrapf cause msg) = msg @ '': '' @ Error Quote cause"

section \<open>The standard library's parsers\<close>

text \<open>
  Modelled from the spec: \<open>strconv.ParseBool\<close> and \<open>strconv.Atoi\<close> are Go
  standard-library functions and not part of the repository. \<open>ParseBool\<close> follows the
  boolean lexeme set of the specification (section 4.2), which is the switch of the
  library function; \<open>Atoi\<close> is \<open>ParseInt(s, 10, 0)\<close> with the error's \<open>Func\<close> set to
  \<open>Atoi\<close>: an optional sign, then \<open>ParseUint\<close> in base 10, then the check against the
  range of \<open>int\<close>. Both return the pair (value, error) as the Go functions do.
\<close>

definition ParseBool :: "string \<Rightarrow> bool \<times> error option" where
  "ParseBool str =
     (if str = ''1'' \<or> str = ''t'' \<or> str = ''T'' \<or> str = ''true'' \<or> str = ''TRUE''
         \<or> str = ''True'' then (True, None)
      else if str = ''0'' \<or> str = ''f'' \<or> str = ''F'' \<or> str = ''false'' \<or> str = ''FALSE''
         \<or> str = ''False'' then (False, None)
      else (False, Some (syntaxError ''ParseBool'' str)))"

text \<open>The size of \<open>int\<close> in bits, on the 64-bit platforms minikube is built for.\<close>

definition IntSize :: nat where
  "IntSize = 64"

definition maxUint64 :: nat where
  "maxUint64 = 2 ^ 64 - 1"

text \<open>
  The digit loop of \<open>ParseUint\<close> for base 10. The library computes in \<open>uint64\<close> and
  tests \<open>n >= cutoff\<close> before \<open>n *= 10\<close>, then \<open>n1 < n || n1 > maxVal\<close> after
  \<open>n1 := n + d\<close>; over \<open>nat\<close> the wrap-around \<open>n1 < n\<close> is \<open>n1 > maxUint64\<close>. The loop
  returns at the first character that fails, so an overflow found before a non-digit
  is reported as a range error.
\<close>

fun ParseUint_loop :: "nat \<Rightarrow> string \<Rightarrow> nat \<Rightarrow> nat \<times> error option" where
  "ParseUint_loop maxVal [] n = (n, None)"
| "ParseUint_loop maxVal (c # cs) n =
     (let k = (of_char c :: nat) in
      if \<not> (48 \<le> k \<and> k \<le> 57) then (0, Some ErrSyntax)
      else if n \<ge> maxUint64 div 10 + 1 then (maxVal, Some ErrRange)
      else (let n1 = n * 10 + (k - 48) in
            if n1 > maxUint64 \<or> n1 > maxVal then (maxVal, Some ErrRange)
            else ParseUint_loop maxVal cs n1))"

definition ParseUint :: "string \<Rightarrow> nat \<times> error option" where
  "ParseUint s =
     (if s = [] then (0, Some ErrSyntax)
      else ParseUint_loop (2 ^ IntSize - 1) s 0)"

definition ParseInt :: "string \<Rightarrow> int \<times> error option" where
  "ParseInt s0 =
     (if s0 = [] then (0, Some ErrSyntax)
      else
        (let neg = (hd s0 = CHR ''-'');
             s = (if hd s0 = CHR ''+'' \<or> hd s0 = CHR ''-'' then tl s0 else s0);
             (un, err) = ParseUint s;
             cutoff = (2::nat) ^ (IntSize - 1)
         in if err \<noteq> None \<and> err \<noteq> Some ErrRange then (0, err)
            else if \<not> neg \<and> un \<ge> cutoff then (int cutoff - 1, Some ErrRange)
            else if neg \<and> un > cutoff then (- int cutoff, Some ErrRange)
            else (if neg then - int un else int un, None)))"

definition Atoi :: "string \<Rightarrow> int \<times> error option" where
  "Atoi s =
     (case ParseInt s of
        (i, None) \<Rightarrow> (i, None)
      | (i, Some e) \<Rightarrow> (i, Some (NumError ''Atoi'' s e)))"

section \<open>The configuration store and the typed mutators\<close>

text \<open>
  \<open>config.MinikubeConfig\<close> is \<open>map[string]interface{}\<close>; the mutators store a
  string, an \<open>int\<close> or a \<open>bool\<close>. The Go map is mutated in place; the model returns
  the store after the call together with the returned error.
\<close>

datatype cfg_value = VString string | VInt int | VBool bool

type_synonym MinikubeConfig = "string \<rightharpoonup> cfg_value"

definition SetString :: "MinikubeConfig \<Rightarrow> string \<Rightarrow> string \<Rightarrow> MinikubeConfig \<times> error option" where
  "SetString m name val = (m(name \<mapsto> VString val), None)"

definition SetInt :: "MinikubeConfig \<Rightarrow> string \<Rightarrow> string \<Rightarrow> MinikubeConfig \<times> error option" where
  "SetInt m name val =
     (case Atoi val of
        (i, Some err) \<Rightarrow> (m, Some err)
      | (i, None) \<Rightarrow> (m(name \<mapsto> VInt i), None))"

definition SetBool :: "MinikubeConfig \<Rightarrow> string \<Rightarrow> string \<Rightarrow> MinikubeConfig \<times> error option" where
  "SetBool m name val =
     (case ParseBool val of
        (b, Some err) \<Rightarrow> (m, Some err)
      | (b, None) \<Rightarrow> (m(name \<mapsto> VBool b), None))"


section \<open>The setting registry and the setting applier\<close>

text \<open>
  A \<open>setFn\<close> is \<open>func(string, string) error\<close>. Validators and callbacks may act on
  the outside world (a callback of the repository toggles an add-on), so a \<open>setFn\<close>
  takes the state of the world \<open>'w\<close> and returns it with the error.
\<close>

type_synonym 'w setFn = "string \<Rightarrow> string \<Rightarrow> 'w \<Rightarrow> error option \<times> 'w"

text \<open>
  Modelled from the spec: the type \<open>Setting\<close> and the global list \<open>settings\<close> are
  declared in another file of the package. The specification (section 3) gives a
  Setting a name, a setter and an ordered sequence of validators; the list of
  settings is a parameter of \<open>findSetting\<close>.
\<close>

record 'w Setting =
  s_name :: string
  s_set :: "MinikubeConfig \<Rightarrow> string \<Rightarrow> string \<Rightarrow> MinikubeConfig \<times> error option"
  s_validations :: "'w setFn list"

text \<open>
  The loop of \<open>run\<close>, with the slice \<open>errors\<close> and the world as accumulators. There is
  no \<open>break\<close> or \<open>return\<close> in the loop body.
\<close>

fun run_loop :: "string \<Rightarrow> string \<Rightarrow> 'w setFn list \<Rightarrow> error list \<Rightarrow> 'w \<Rightarrow> error list \<times> 'w" where
  "run_loop name value [] errors w = (errors, w)"
| "run_loop name value (fn # fns) errors w =
     (case fn name value w of
        (None, w') \<Rightarrow> run_loop name value fns errors w'
      | (Some err, w') \<Rightarrow> run_loop name value fns (errors @ [err]) w')"

text \<open>
  \<open>fmt.Errorf("%v", errors)\<close> on a slice of errors prints the text of each element,
  separated by one space, between square brackets.
\<close>

fun join_space :: "string list \<Rightarrow> string" where
  "join_space [] = []"
| "join_space [x] = x"
| "join_space (x # y # ys) = x @ '' '' @ join_space (y # ys)"

definition Sprint_errors :: "(string \<Rightarrow> string) \<Rightarrow> error list \<Rightarrow> string" where
  "Sprint_errors Quote errors = ''['' @ join_space (map (Error Quote) errors) @ '']''"

definition run :: "(string \<Rightarrow> string) \<Rightarrow> string \<Rightarrow> string \<Rightarrow> 'w setFn list \<Rightarrow> 'w \<Rightarrow> error option \<times> 'w" where
  "run Quote name value fns w =
     (case run_loop name value fns [] w of
        (errors, w') \<Rightarrow>
          (if length errors > 0 then Some (ErrorString (Sprint_errors Quote errors)) else None, w'))"

fun findSetting :: "'w Setting list \<Rightarrow> string \<Rightarrow> error + 'w Setting" where
  "findSetting [] name = Inl (ErrorString (''Property name '' @ name @ '' not found''))"
| "findSetting (s # settings) name =
     (if name = s_name s then Inr s else findSetting settings name)"

section \<open>The add-on toggle\<close>

datatype ClientType = ClientTypeLocal | ClientTypeRPC

text \<open>\<open>viper.GetBool(useVendoredDriver)\<close> reads a process-wide flag; its value is the argument.\<close>

definition GetClientType :: "bool \<Rightarrow> ClientType" where
  "GetClientType useVendoredDriver =
     (if useVendoredDriver then ClientTypeLocal else ClientTypeRPC)"

text \<open>
  Handles of the collaborators are opaque to this file. An add-on descriptor is
  looked up in the map \<open>assets.Addons\<close>, of type \<open>map[string]*Addon\<close>: a missing key
  yields the nil pointer, which is \<open>None :: Addon option\<close>.

  Modelled from the spec: the type \<open>Addon\<close> is declared in the package \<open>assets\<close>;
  the specification (section 3) gives it a name and a payload of files.
\<close>

type_synonym api = nat
type_synonym driver = nat
type_synonym ssh_client = nat

datatype Host = Host (Driver: driver)

datatype Addon = Addon (addon_name: string) (addon_payload: "string list")

text \<open>
  The collaborators of \<open>EnableOrDisableAddon\<close>, each as the answer it gives to a
  request: the two prompts, \<open>ioutil.ReadFile\<close>, \<open>service.CreateSecret\<close>,
  \<open>machine.NewAPIClient\<close>, \<open>cluster.EnsureMinikubeRunningOrExit\<close> (\<open>Some code\<close> when it
  ends the process with that exit code), the map \<open>assets.Addons\<close>,
  \<open>cluster.CheckIfApiExistsAndLoad\<close>, and \<open>sshutil\<close>'s \<open>NewSSHClient\<close>,
  \<open>TransferAddon\<close> and \<open>DeleteAddon\<close>. The result of \<open>service.DeleteSecret\<close> is
  dropped by the code, so it has no field.
\<close>

record env =
  useVendoredDriver :: bool
  AskForYesNoConfirmation :: "string \<Rightarrow> string list \<Rightarrow> string list \<Rightarrow> bool"
  AskForStaticValue :: "string \<Rightarrow> string"
  ReadFile :: "string \<Rightarrow> error + string"
  CreateSecret :: "string \<Rightarrow> string \<Rightarrow> (string \<times> string) list \<Rightarrow> (string \<times> string) list \<Rightarrow> error option"
  NewAPIClient :: "ClientType \<Rightarrow> error + api"
  EnsureMinikubeRunningOrExit :: "api \<Rightarrow> int \<Rightarrow> int option"
  Addons :: "string \<rightharpoonup> Addon"
  CheckIfApiExistsAndLoad :: "api \<Rightarrow> error + Host"
  NewSSHClient :: "driver \<Rightarrow> error + ssh_client"
  TransferAddon :: "Addon option \<Rightarrow> ssh_client \<Rightarrow> error option"
  DeleteAddon :: "Addon option \<Rightarrow> ssh_client \<Rightarrow> error option"

text \<open>
  What the operation does to the outside, in order: every request it sends and
  every line it prints. The two \<open>map[string]string\<close> literals of a secret are
  association lists with distinct keys, in the order of the source.
\<close>

datatype event =
    Ask_YesNo string "string list" "string list"
  | Ask_Static string
  | File_Read string
  | Println string
  | Stderr_Printf string error
  | Secret_Create string string "(string \<times> string) list" "(string \<times> string) list"
  | Secret_Delete string string
  | Client_New ClientType
  | Ensure_Running api int
  | Host_Load api
  | SSH_New driver
  | Payload_Transfer "Addon option" ssh_client
  | Payload_Delete "Addon option" ssh_client
  | Client_Close api

text \<open>
  How the call ends: it returns an error or nil, the process exits (\<open>os.Exit\<close>), or
  it panics on a nil pointer.
\<close>

datatype outcome = Return "error option" | Exit int | Panic

definition posResponses :: "string list" where
  "posResponses = [''yes'', ''y'']"

definition negResponses :: "string list" where
  "negResponses = [''no'', ''n'']"

text \<open>Lines 116 to 122: the prompts for AWS ECR.\<close>

definition ask_ecr :: "env \<Rightarrow> event list \<times> string \<times> string \<times> string \<times> string" where
  "ask_ecr env =
     (let q = CHR 0x0A # ''Do you want to enable AWS Elastic Container Registry?'';
          enableAWSECR = AskForYesNoConfirmation env q posResponses negResponses
      in if enableAWSECR then
           ([Ask_YesNo q posResponses negResponses,
             Ask_Static ''-- Enter AWS Access Key ID: '',
             Ask_Static ''-- Enter AWS Secret Access Key: '',
             Ask_Static ''-- Enter AWS Region: '',
             Ask_Static ''-- Enter 12 digit AWS Account ID: ''],
            AskForStaticValue env ''-- Enter AWS Access Key ID: '',
            AskForStaticValue env ''-- Enter AWS Secret Access Key: '',
            AskForStaticValue env ''-- Enter AWS Region: '',
            AskForStaticValue env ''-- Enter 12 digit AWS Account ID: '')
         else
           ([Ask_YesNo q posResponses negResponses],
            ''changeme'', ''changeme'', ''changeme'', ''changeme''))"

text \<open>Lines 124 to 136: the prompts for GCR and the read of the credentials file.\<close>

definition ask_gcr :: "env \<Rightarrow> event list \<times> string" where
  "ask_gcr env =
     (let q = CHR 0x0A # ''Do you want to enable Google Container Registry?'';
          p = ''-- Enter path to credentials (e.g. /home/user/.config/gcloud/application_default_credentials.json):'';
          enableGCR = AskForYesNoConfirmation env q posResponses negResponses
      in if enableGCR then
           (let gcrPath = AskForStaticValue env p in
            case ReadFile env gcrPath of
              Inl err \<Rightarrow>
                ([Ask_YesNo q posResponses negResponses, Ask_Static p, File_Read gcrPath,
                  Println ''Could not read file for application_default_credentials.json''],
                 ''changeme'')
            | Inr dat \<Rightarrow>
                ([Ask_YesNo q posResponses negResponses, Ask_Static p, File_Read gcrPath], dat))
         else ([Ask_YesNo q posResponses negResponses], ''changeme''))"

text \<open>Lines 138 to 143: the prompts for the Docker registry.\<close>

definition ask_docker :: "env \<Rightarrow> event list \<times> string \<times> string \<times> string" where
  "ask_docker env =
     (let q = CHR 0x0A # ''Do you want to enable Docker Registry?'';
          enableDR = AskForYesNoConfirmation env q posResponses negResponses
      in if enableDR then
           ([Ask_YesNo q posResponses negResponses,
             Ask_Static ''-- Enter docker registry server url: '',
             Ask_Static ''-- Enter docker registry username: '',
             Ask_Static ''-- Enter docker registry password: ''],
            AskForStaticValue env ''-- Enter docker registry server url: '',
            AskForStaticValue env ''-- Enter docker registry username: '',
            AskForStaticValue env ''-- Enter docker registry password: '')
         else
           ([Ask_YesNo q posResponses negResponses], ''changeme'', ''changeme'', ''changeme''))"

text \<open>
  One \<open>service.CreateSecret\<close> call in the namespace \<open>kube-system\<close> followed by its
  \<open>if err != nil\<close>, which prints a line and goes on.
\<close>

definition create_secret :: "env \<Rightarrow> string \<Rightarrow> string \<Rightarrow> (string \<times> string) list \<Rightarrow> event list" where
  "create_secret env secret cloud dat =
     (let labels = [(''app'', ''registry-creds''), (''cloud'', cloud),
                    (''kubernetes.io/minikube-addons'', ''registry-creds'')];
          err = CreateSecret env ''kube-system'' secret dat labels
      in if err \<noteq> None then
           [Secret_Create ''kube-system'' secret dat labels,
            Println (''ERROR creating `'' @ secret @ ''` secret'')]
         else [Secret_Create ''kube-system'' secret dat labels])"

text \<open>Lines 102 to 201: the case \<open>"registry-creds"\<close> of the switch.\<close>

definition registry_creds :: "env \<Rightarrow> event list" where
  "registry_creds env =
     (case ask_ecr env of (t1, awsAccessID, awsAccessKey, awsRegion, awsAccount) \<Rightarrow>
      case ask_gcr env of (t2, gcrApplicationDefaultCredentials) \<Rightarrow>
      case ask_docker env of (t3, dockerServer, dockerUser, dockerPass) \<Rightarrow>
        t1 @ t2 @ t3
        @ create_secret env ''registry-creds-ecr'' ''ecr''
            [(''AWS_ACCESS_KEY_ID'', awsAccessID),
             (''AWS_SECRET_ACCESS_KEY'', awsAccessKey),
             (''aws-account'', awsAccount),
             (''aws-region'', awsRegion)]
        @ create_secret env ''registry-creds-gcr'' ''gcr''
            [(''application_default_credentials.json'', gcrApplicationDefaultCredentials)]
        @ create_secret env ''registry-creds-dpr'' ''dpr''
            [(''DOCKER_PRIVATE_REGISTRY_SERVER'', dockerServer),
             (''DOCKER_PRIVATE_REGISTRY_USER'', dockerUser),
             (''DOCKER_PRIVATE_REGISTRY_PASSWORD'', dockerPass)])"

text \<open>
  \<open>transferAddonViaDriver\<close> and \<open>deleteAddonViaDriver\<close>: the SSH client, then the
  request; the first error is returned.
\<close>

definition transferAddonViaDriver :: "env \<Rightarrow> Addon option \<Rightarrow> driver \<Rightarrow> event list \<times> error option" where
  "transferAddonViaDriver env addon d =
     (case NewSSHClient env d of
        Inl err \<Rightarrow> ([SSH_New d], Some err)
      | Inr client \<Rightarrow>
          (case TransferAddon env addon client of
             Some err \<Rightarrow> ([SSH_New d, Payload_Transfer addon client], Some err)
           | None \<Rightarrow> ([SSH_New d, Payload_Transfer addon client], None)))"

definition deleteAddonViaDriver :: "env \<Rightarrow> Addon option \<Rightarrow> driver \<Rightarrow> event list \<times> error option" where
  "deleteAddonViaDriver env addon d =
     (case NewSSHClient env d of
        Inl err \<Rightarrow> ([SSH_New d], Some err)
      | Inr client \<Rightarrow>
          (case DeleteAddon env addon client of
             Some err \<Rightarrow> ([SSH_New d, Payload_Delete addon client], Some err)
           | None \<Rightarrow> ([SSH_New d, Payload_Delete addon client], None)))"

text \<open>
  Lines 211 to 233. A failed \<open>NewAPIClient\<close> prints to stderr and exits with 1, before
  \<open>defer api.Close()\<close> is reached; an exit inside \<open>EnsureMinikubeRunningOrExit\<close> skips
  the deferred call too. After the lookup \<open>addon, _ := assets.Addons[name]\<close> the
  variable \<open>err\<close> still holds the nil of \<open>NewAPIClient\<close>. The error of
  \<open>CheckIfApiExistsAndLoad\<close> is overwritten before it is read; with it the host is
  nil, and \<open>host.Driver\<close> panics, after which the deferred \<open>Close\<close> runs.
\<close>

definition dispatch :: "env \<Rightarrow> string \<Rightarrow> bool \<Rightarrow> event list \<times> outcome" where
  "dispatch env name enable =
     (let ct = GetClientType (useVendoredDriver env) in
      case NewAPIClient env ct of
        Inl err \<Rightarrow> ([Client_New ct, Stderr_Printf ''Error getting client: %s\<newline>'' err], Exit 1)
      | Inr api \<Rightarrow>
          (case EnsureMinikubeRunningOrExit env api 0 of
             Some code \<Rightarrow> ([Client_New ct, Ensure_Running api 0], Exit code)
           | None \<Rightarrow>
               (let addon = Addons env name;
                    err = (None :: error option)
                in if err \<noteq> None then
                     ([Client_New ct, Ensure_Running api 0, Client_Close api], Return err)
                   else
                     (case CheckIfApiExistsAndLoad env api of
                        Inl err \<Rightarrow>
                          ([Client_New ct, Ensure_Running api 0, Host_Load api, Client_Close api],
                           Panic)
                      | Inr host \<Rightarrow>
                          (if enable then
                             (case transferAddonViaDriver env addon (Driver host) of
                                (t, Some err) \<Rightarrow>
                                  ([Client_New ct, Ensure_Running api 0, Host_Load api] @ t
                                     @ [Client_Close api],
                                   Return (Some (Wrapf err
                                     (''Error transferring addon '' @ name @ '' to VM''))))
                              | (t, None) \<Rightarrow>
                                  ([Client_New ct, Ensure_Running api 0, Host_Load api] @ t
                                     @ [Client_Close api],
                                   Return None))
                           else
                             (case deleteAddonViaDriver env addon (Driver host) of
                                (t, Some err) \<Rightarrow>
                                  ([Client_New ct, Ensure_Running api 0, Host_Load api] @ t
                                     @ [Client_Close api],
                                   Return (Some (Wrapf err
                                     (''Error deleting addon '' @ name @ '' from VM''))))
                              | (t, None) \<Rightarrow>
                                  ([Client_New ct, Ensure_Running api 0, Host_Load api] @ t
                                     @ [Client_Close api],
                                   Return None)))))))"

text \<open>
  \<open>EnableOrDisableAddon\<close>. When \<open>ParseBool\<close> fails, the body of \<open>if err != nil\<close> builds
  a wrapped error with \<open>errors.Wrapf\<close> and drops it: nothing is returned there, and
  \<open>enable\<close> is the \<open>false\<close> that \<open>ParseBool\<close> returned with the error. The switch on the
  name has the one case \<open>"registry-creds"\<close> and no default.
\<close>

definition EnableOrDisableAddon :: "env \<Rightarrow> string \<Rightarrow> string \<Rightarrow> event list \<times> outcome" where
  "EnableOrDisableAddon env name val =
     (case ParseBool val of (enable, err) \<Rightarrow>
        (let t = (if enable then
                    (if name = ''registry-creds'' then registry_creds env else [])
                  else
                    [Secret_Delete ''kube-system'' ''registry-creds-ecr'',
                     Secret_Delete ''kube-system'' ''registry-creds-gcr'',
                     Secret_Delete ''kube-system'' ''registry-creds-dpr''])
         in case dispatch env name enable of (t', out) \<Rightarrow> (t @ t', out)))"

section \<open>Notions of the specification\<close>

text \<open>
  The boolean lexeme set as the specification lists it, split into the tokens that
  mean true and the tokens that mean false.
\<close>

definition true_lexemes :: "string list" where
  "true_lexemes = [''1'', ''t'', ''T'', ''TRUE'', ''true'', ''True'']"

definition false_lexemes :: "string list" where
  "false_lexemes = [''0'', ''f'', ''F'', ''FALSE'', ''false'', ''False'']"

text \<open>
  A base-10 signed integer literal, as the specification words it: an optional sign
  and one or more decimal digits, and the integer it denotes.
\<close>

definition is_digit :: "char \<Rightarrow> bool" where
  "is_digit c = (48 \<le> (of_char c :: nat) \<and> (of_char c :: nat) \<le> 57)"

definition digits_value :: "string \<Rightarrow> nat" where
  "digits_value ds = foldl (\<lambda>n c. n * 10 + (of_char c - 48)) 0 ds"

definition is_int_literal :: "string \<Rightarrow> bool" where
  "is_int_literal s =
     (case s of
        [] \<Rightarrow> False
      | c # cs \<Rightarrow>
          if c = CHR ''+'' \<or> c = CHR ''-'' then cs \<noteq> [] \<and> list_all is_digit cs
          else list_all is_digit s)"

definition int_literal_value :: "string \<Rightarrow> int" where
  "int_literal_value s =
     (case s of
        [] \<Rightarrow> 0
      | c # cs \<Rightarrow>
          if c = CHR ''-'' then - int (digits_value cs)
          else if c = CHR ''+'' then int (digits_value cs)
          else int (digits_value s))"

text \<open>
  The setting applier as the specification words it: every function is invoked, in
  order, whatever the earlier ones returned. \<open>invoke_all\<close> gives the result of each
  invocation and the world after the last one; \<open>failures\<close> keeps the errors.
\<close>

fun invoke_all :: "string \<Rightarrow> string \<Rightarrow> 'w setFn list \<Rightarrow> 'w \<Rightarrow> error option list \<times> 'w" where
  "invoke_all name value [] w = ([], w)"
| "invoke_all name value (fn # fns) w =
     (case fn name value w of (r, w') \<Rightarrow>
      case invoke_all name value fns w' of (rs, w'') \<Rightarrow> (r # rs, w''))"

fun failures :: "error option list \<Rightarrow> error list" where
  "failures [] = []"
| "failures (None # rs) = failures rs"
| "failures (Some err # rs) = err # failures rs"


text \<open>
  The kinds of event the specification speaks of: a secret-create request, a
  secret-delete request, and a step of the Credential Collector (a prompt or the read
  of the credentials file); the name and the data of a secret request.
\<close>

fun is_secret_create :: "event \<Rightarrow> bool" where
  "is_secret_create (Secret_Create ns n d l) = True"
| "is_secret_create ev = False"

fun is_secret_delete :: "event \<Rightarrow> bool" where
  "is_secret_delete (Secret_Delete ns n) = True"
| "is_secret_delete ev = False"

fun is_collector :: "event \<Rightarrow> bool" where
  "is_collector (Ask_YesNo q pos neg) = True"
| "is_collector (Ask_Static q) = True"
| "is_collector (File_Read path) = True"
| "is_collector ev = False"

fun secret_name :: "event \<Rightarrow> string" where
  "secret_name (Secret_Create ns n d l) = n"
| "secret_name (Secret_Delete ns n) = n"
| "secret_name ev = []"

fun secret_data :: "event \<Rightarrow> (string \<times> string) list" where
  "secret_data (Secret_Create ns n d l) = d"
| "secret_data ev = []"

section \<open>Example inputs\<close>

text \<open>
  Two functions of type \<open>setFn\<close> over a world that counts the invocations, and a
  registry of two settings.
\<close>

definition ok_fn :: "nat setFn" where
  "ok_fn name value w = (None, Suc w)"

definition fail_fn :: "string \<Rightarrow> nat setFn" where
  "fail_fn msg name value w = (Some (ErrorString (msg @ '' '' @ name @ ''='' @ value)), Suc w)"


definition example_settings :: "nat Setting list" where
  "example_settings =
     [\<lparr>s_name = ''cpus'', s_set = SetInt, s_validations = [ok_fn]\<rparr>,
      \<lparr>s_name = ''dashboard'', s_set = SetBool, s_validations = []\<rparr>]"

text \<open>
  A cluster in good health: the client is acquired, the cluster runs, the host loads,
  SSH connects, and every request succeeds. Every confirmation is declined. The
  add-on registry holds \<open>dashboard\<close> only.
\<close>

definition healthy_env :: env where
  "healthy_env =
     \<lparr>useVendoredDriver = False,
      AskForYesNoConfirmation = (\<lambda>q pos neg. False),
      AskForStaticValue = (\<lambda>q. ''secret''),
      ReadFile = (\<lambda>path. Inl (ErrorString ''no such file'')),
      CreateSecret = (\<lambda>ns n d l. None),
      NewAPIClient = (\<lambda>ct. Inr 1),
      EnsureMinikubeRunningOrExit = (\<lambda>api code. None),
      Addons = [''dashboard'' \<mapsto> Addon ''dashboard'' [''dashboard-rc.yaml'', ''dashboard-svc.yaml'']],
      CheckIfApiExistsAndLoad = (\<lambda>api. Inr (Host 2)),
      NewSSHClient = (\<lambda>d. Inr 3),
      TransferAddon = (\<lambda>addon client. None),
      DeleteAddon = (\<lambda>addon client. None)\<rparr>"

section \<open>Properties of the typed mutators\<close>

text \<open>
  C7: \<open>SetBool\<close> accepts exactly the lexeme set. On a true lexeme it stores \<open>true\<close>
  under the name and returns nil, on a false lexeme it stores \<open>false\<close> and returns
  nil, and on every other string it returns the parse error for that string and the
  store is the one it was given.
\<close>

theorem SetBool_lexemes:
  "(val \<in> set true_lexemes \<longrightarrow> SetBool m name val = (m(name \<mapsto> VBool True), None)) \<and>
   (val \<in> set false_lexemes \<longrightarrow> SetBool m name val = (m(name \<mapsto> VBool False), None)) \<and>
   (val \<notin> set true_lexemes \<union> set false_lexemes \<longrightarrow>
      SetBool m name val = (m, Some (NumError ''ParseBool'' val ErrSyntax)))"
  by (auto simp: SetBool_def ParseBool_def true_lexemes_def false_lexemes_def syntaxError_def)

theorem SetBool_lexemes_witness:
  "SetBool Map.empty ''x'' ''T'' = ([''x'' \<mapsto> VBool True], None) \<and>
   SetBool Map.empty ''x'' ''0'' = ([''x'' \<mapsto> VBool False], None) \<and>
   SetBool [''x'' \<mapsto> VInt 3] ''x'' ''maybe'' =
     ([''x'' \<mapsto> VInt 3], Some (NumError ''ParseBool'' ''maybe'' ErrSyntax))"
  using SetBool_lexemes [of "''T''" Map.empty "''x''"]
        SetBool_lexemes [of "''0''" Map.empty "''x''"]
        SetBool_lexemes [of "''maybe''" "[''x'' \<mapsto> VInt 3]" "''x''"]
  by (simp add: true_lexemes_def false_lexemes_def)

text \<open>
  C10: a typed mutator that succeeds changes the entry of the given name only. Every
  other key maps, after the call, to what it mapped to before.
\<close>

theorem mutators_frame:
  "(SetString m name val = (m', None) \<longrightarrow> (\<forall>k. k \<noteq> name \<longrightarrow> m' k = m k)) \<and>
   (SetInt m name val = (m', None) \<longrightarrow> (\<forall>k. k \<noteq> name \<longrightarrow> m' k = m k)) \<and>
   (SetBool m name val = (m', None) \<longrightarrow> (\<forall>k. k \<noteq> name \<longrightarrow> m' k = m k))"
  by (auto simp: SetString_def SetInt_def SetBool_def split: prod.splits option.splits)

theorem mutators_frame_witness:
  "SetString [''a'' \<mapsto> VInt 1] ''b'' ''v'' = ([''a'' \<mapsto> VInt 1, ''b'' \<mapsto> VString ''v''], None) \<and>
   SetInt [''a'' \<mapsto> VInt 1] ''b'' ''42'' = ([''a'' \<mapsto> VInt 1, ''b'' \<mapsto> VInt 42], None) \<and>
   SetBool [''a'' \<mapsto> VInt 1] ''b'' ''true'' = ([''a'' \<mapsto> VInt 1, ''b'' \<mapsto> VBool True], None) \<and>
   ''a'' \<noteq> ''b'' \<and>
   [''a'' \<mapsto> VInt 1, ''b'' \<mapsto> VString ''v''] ''a'' = [''a'' \<mapsto> VInt 1] ''a'' \<and>
   [''a'' \<mapsto> VInt 1, ''b'' \<mapsto> VInt 42] ''a'' = [''a'' \<mapsto> VInt 1] ''a'' \<and>
   [''a'' \<mapsto> VInt 1, ''b'' \<mapsto> VBool True] ''a'' = [''a'' \<mapsto> VInt 1] ''a''"
  using mutators_frame [of "[''a'' \<mapsto> VInt 1]" "''b''" "''v''" "[''a'' \<mapsto> VInt 1, ''b'' \<mapsto> VString ''v'']"]
        mutators_frame [of "[''a'' \<mapsto> VInt 1]" "''b''" "''42''" "[''a'' \<mapsto> VInt 1, ''b'' \<mapsto> VInt 42]"]
        mutators_frame [of "[''a'' \<mapsto> VInt 1]" "''b''" "''true''" "[''a'' \<mapsto> VInt 1, ''b'' \<mapsto> VBool True]"]
  by (simp add: SetString_def SetInt_def SetBool_def ParseBool_def Atoi_def ParseInt_def
      ParseUint_def IntSize_def maxUint64_def ErrSyntax_def ErrRange_def Let_def)

subsection \<open>The integer mutator\<close>

lemma ErrSyntax_neq_ErrRange: "ErrSyntax \<noteq> ErrRange"
  by (simp add: ErrSyntax_def ErrRange_def)

lemma foldl_digits_mono: "(n::nat) \<le> foldl (\<lambda>n c. n * 10 + (of_char c - 48)) n cs"
proof (induction cs arbitrary: n)
  case Nil
  show ?case by simp
next
  case (Cons c cs)
  have "n \<le> n * 10 + (of_char c - 48)" by simp
  also have "\<dots> \<le> foldl (\<lambda>n c. n * 10 + (of_char c - 48)) (n * 10 + (of_char c - 48)) cs"
    by (rule Cons.IH)
  finally show ?case by simp
qed

lemma ParseUint_loop_digits:
  "list_all is_digit cs \<Longrightarrow> n \<le> maxUint64 \<Longrightarrow>
   ParseUint_loop maxUint64 cs n =
     (if foldl (\<lambda>n c. n * 10 + (of_char c - 48)) n cs \<le> maxUint64
      then (foldl (\<lambda>n c. n * 10 + (of_char c - 48)) n cs, None)
      else (maxUint64, Some ErrRange))"
proof (induction cs arbitrary: n)
  case Nil
  then show ?case by simp
next
  case (Cons c cs)
  let ?f = "\<lambda>n c. n * 10 + (of_char c - (48::nat))"
  let ?n1 = "n * 10 + (of_char c - (48::nat))"
  from Cons.prems have rest: "list_all is_digit cs" and "is_digit c"
    by simp_all
  then have dig: "48 \<le> (of_char c :: nat)" "(of_char c :: nat) \<le> 57"
    by (simp_all add: is_digit_def)
  have mono: "?n1 \<le> foldl ?f ?n1 cs" by (rule foldl_digits_mono)
  show ?case
  proof (cases "n \<ge> maxUint64 div 10 + 1")
    case True
    then have "?n1 > maxUint64" by (simp add: maxUint64_def)
    with mono have "foldl ?f ?n1 cs > maxUint64" by linarith
    with True dig show ?thesis by (simp add: Let_def)
  next
    case False
    show ?thesis
    proof (cases "?n1 > maxUint64")
      case True
      with mono have "foldl ?f ?n1 cs > maxUint64" by linarith
      with True False dig show ?thesis by (simp add: Let_def)
    next
      case n1: False
      then have "?n1 \<le> maxUint64" by simp
      from Cons.IH [OF rest this] n1 False dig show ?thesis by (simp add: Let_def)
    qed
  qed
qed

lemma ParseUint_loop_nondigits:
  "\<not> list_all is_digit cs \<Longrightarrow>
   ParseUint_loop maxUint64 cs n = (0, Some ErrSyntax) \<or>
   ParseUint_loop maxUint64 cs n = (maxUint64, Some ErrRange)"
proof (induction cs arbitrary: n)
  case Nil
  then show ?case by simp
next
  case (Cons c cs)
  show ?case
  proof (cases "is_digit c")
    case True
    with Cons.prems have "\<not> list_all is_digit cs" by simp
    from Cons.IH [OF this] True show ?thesis
      by (simp add: Let_def is_digit_def)
  next
    case False
    then show ?thesis by (simp add: Let_def is_digit_def)
  qed
qed

lemma ParseUint_digits:
  assumes "cs \<noteq> []" "list_all is_digit cs"
  shows "ParseUint cs =
     (if digits_value cs \<le> maxUint64 then (digits_value cs, None)
      else (maxUint64, Some ErrRange))"
proof -
  have "2 ^ IntSize - 1 = maxUint64" by (simp add: IntSize_def maxUint64_def)
  with assms ParseUint_loop_digits [of cs 0] show ?thesis
    by (simp add: ParseUint_def digits_value_def)
qed

lemma ParseUint_nondigits:
  assumes "cs = [] \<or> \<not> list_all is_digit cs"
  shows "ParseUint cs = (0, Some ErrSyntax) \<or> ParseUint cs = (maxUint64, Some ErrRange)"
proof -
  have "2 ^ IntSize - 1 = maxUint64" by (simp add: IntSize_def maxUint64_def)
  with assms ParseUint_loop_nondigits [of cs 0] show ?thesis
    by (auto simp: ParseUint_def)
qed

lemma cutoff_vals: "(2::nat) ^ (IntSize - Suc 0) = 9223372036854775808" "maxUint64 = 18446744073709551615"
  by (simp_all add: IntSize_def maxUint64_def)

lemma ParseInt_unsigned:
  assumes "s \<noteq> []" "hd s \<noteq> CHR ''+''" "hd s \<noteq> CHR ''-''" "list_all is_digit s"
    and "int (digits_value s) < 2 ^ 63"
  shows "ParseInt s = (int (digits_value s), None)"
proof -
  from assms(5) have small: "digits_value s < 9223372036854775808" by simp
  then have "digits_value s \<le> maxUint64" by (simp add: cutoff_vals)
  with assms have "ParseUint s = (digits_value s, None)" by (simp add: ParseUint_digits)
  with assms small show ?thesis by (simp add: ParseInt_def Let_def cutoff_vals)
qed

lemma ParseInt_plus:
  assumes "cs \<noteq> []" "list_all is_digit cs" and "int (digits_value cs) < 2 ^ 63"
  shows "ParseInt (CHR ''+'' # cs) = (int (digits_value cs), None)"
proof -
  from assms(3) have small: "digits_value cs < 9223372036854775808" by simp
  then have "digits_value cs \<le> maxUint64" by (simp add: cutoff_vals)
  with assms have "ParseUint cs = (digits_value cs, None)" by (simp add: ParseUint_digits)
  with small show ?thesis by (simp add: ParseInt_def Let_def cutoff_vals)
qed

lemma ParseInt_minus:
  assumes "cs \<noteq> []" "list_all is_digit cs" and "- (2 ^ 63) \<le> - int (digits_value cs)"
  shows "ParseInt (CHR ''-'' # cs) = (- int (digits_value cs), None)"
proof -
  from assms(3) have small: "digits_value cs \<le> 9223372036854775808" by simp
  then have "digits_value cs \<le> maxUint64" by (simp add: cutoff_vals)
  with assms have "ParseUint cs = (digits_value cs, None)" by (simp add: ParseUint_digits)
  with small show ?thesis by (simp add: ParseInt_def Let_def cutoff_vals)
qed

lemma ParseInt_literal:
  assumes "is_int_literal s" "- (2 ^ 63) \<le> int_literal_value s" "int_literal_value s < 2 ^ 63"
  shows "ParseInt s = (int_literal_value s, None)"
proof (cases s)
  case Nil
  with assms(1) show ?thesis by (simp add: is_int_literal_def)
next
  case (Cons c cs)
  consider (minus) "c = CHR ''-''" | (plus) "c = CHR ''+''" | (digit) "c \<noteq> CHR ''-''" "c \<noteq> CHR ''+''"
    by blast
  then show ?thesis
  proof cases
    case minus
    with Cons assms show ?thesis
      by (simp add: is_int_literal_def int_literal_value_def ParseInt_minus)
  next
    case plus
    with Cons assms show ?thesis
      by (simp add: is_int_literal_def int_literal_value_def ParseInt_plus)
  next
    case digit
    with Cons assms have "ParseInt (c # cs) = (int (digits_value (c # cs)), None)"
      by (intro ParseInt_unsigned) (simp_all add: is_int_literal_def int_literal_value_def)
    with Cons digit show ?thesis by (simp add: int_literal_value_def)
  qed
qed

lemma ParseInt_uint_error:
  assumes "s0 \<noteq> []"
    and "ParseUint (if hd s0 = CHR ''+'' \<or> hd s0 = CHR ''-'' then tl s0 else s0) = (0, Some ErrSyntax)
       \<or> ParseUint (if hd s0 = CHR ''+'' \<or> hd s0 = CHR ''-'' then tl s0 else s0) = (maxUint64, Some ErrRange)"
  shows "\<exists>i e. ParseInt s0 = (i, Some e) \<and> (e = ErrSyntax \<or> e = ErrRange)"
  using assms(2)
proof
  assume "ParseUint (if hd s0 = CHR ''+'' \<or> hd s0 = CHR ''-'' then tl s0 else s0) = (0, Some ErrSyntax)"
  with assms(1) have "ParseInt s0 = (0, Some ErrSyntax)"
    by (simp add: ParseInt_def Let_def ErrSyntax_neq_ErrRange)
  then show ?thesis by blast
next
  assume "ParseUint (if hd s0 = CHR ''+'' \<or> hd s0 = CHR ''-'' then tl s0 else s0) = (maxUint64, Some ErrRange)"
  with assms(1) have "snd (ParseInt s0) = Some ErrRange"
    by (simp add: ParseInt_def Let_def cutoff_vals)
  then show ?thesis by (metis prod.collapse)
qed

lemma ParseInt_nonliteral:
  assumes "\<not> is_int_literal s"
  shows "\<exists>i e. ParseInt s = (i, Some e) \<and> (e = ErrSyntax \<or> e = ErrRange)"
proof (cases s)
  case Nil
  then show ?thesis by (simp add: ParseInt_def)
next
  case (Cons c cs)
  let ?t = "if hd s = CHR ''+'' \<or> hd s = CHR ''-'' then tl s else s"
  from Cons assms have "?t = [] \<or> \<not> list_all is_digit ?t"
    by (auto simp: is_int_literal_def split: if_splits)
  then have "ParseUint ?t = (0, Some ErrSyntax) \<or> ParseUint ?t = (maxUint64, Some ErrRange)"
    by (rule ParseUint_nondigits)
  moreover from Cons have "s \<noteq> []" by simp
  ultimately show ?thesis by (intro ParseInt_uint_error)
qed

text \<open>
  C8: \<open>SetInt\<close> parses its raw string as a base-10 signed integer. On a literal whose
  value is in the range of \<open>int\<close> it stores that integer under the name and returns
  nil. On a string that is not such a literal it returns a \<open>NumError\<close> whose \<open>Num\<close> is
  the raw string, and the store is the one it was given. Whenever it returns an
  error, the store is the one it was given.
\<close>

theorem SetInt_parses:
  "(is_int_literal val \<and> - (2 ^ 63) \<le> int_literal_value val \<and> int_literal_value val < 2 ^ 63 \<longrightarrow>
      SetInt m name val = (m(name \<mapsto> VInt (int_literal_value val)), None)) \<and>
   (\<not> is_int_literal val \<longrightarrow>
      (\<exists>e. SetInt m name val = (m, Some (NumError ''Atoi'' val e)) \<and> (e = ErrSyntax \<or> e = ErrRange))) \<and>
   (snd (SetInt m name val) \<noteq> None \<longrightarrow> fst (SetInt m name val) = m)"
proof (intro conjI impI)
  assume "is_int_literal val \<and> - (2 ^ 63) \<le> int_literal_value val \<and> int_literal_value val < 2 ^ 63"
  then have "ParseInt val = (int_literal_value val, None)" by (simp add: ParseInt_literal)
  then show "SetInt m name val = (m(name \<mapsto> VInt (int_literal_value val)), None)"
    by (simp add: SetInt_def Atoi_def)
next
  assume "\<not> is_int_literal val"
  then obtain i e where "ParseInt val = (i, Some e)" "e = ErrSyntax \<or> e = ErrRange"
    using ParseInt_nonliteral by blast
  then show "\<exists>e. SetInt m name val = (m, Some (NumError ''Atoi'' val e)) \<and> (e = ErrSyntax \<or> e = ErrRange)"
    by (simp add: SetInt_def Atoi_def)
next
  assume "snd (SetInt m name val) \<noteq> None"
  then show "fst (SetInt m name val) = m"
    by (simp add: SetInt_def split: prod.splits option.splits)
qed

theorem SetInt_parses_witness:
  "SetInt Map.empty ''x'' ''42'' = ([''x'' \<mapsto> VInt 42], None) \<and>
   SetInt [''x'' \<mapsto> VInt 7] ''x'' ''-9223372036854775808'' = ([''x'' \<mapsto> VInt (- 9223372036854775808)], None) \<and>
   SetInt [''x'' \<mapsto> VInt 7] ''x'' ''4a'' = ([''x'' \<mapsto> VInt 7], Some (NumError ''Atoi'' ''4a'' ErrSyntax)) \<and>
   SetInt [''x'' \<mapsto> VInt 7] ''x'' ''9223372036854775808'' =
     ([''x'' \<mapsto> VInt 7], Some (NumError ''Atoi'' ''9223372036854775808'' ErrRange))"
  using SetInt_parses [of "''42''" Map.empty "''x''"]
        SetInt_parses [of "''-9223372036854775808''" "[''x'' \<mapsto> VInt 7]" "''x''"]
        SetInt_parses [of "''4a''" "[''x'' \<mapsto> VInt 7]" "''x''"]
        SetInt_parses [of "''9223372036854775808''" "[''x'' \<mapsto> VInt 7]" "''x''"]
  by (simp add: is_int_literal_def int_literal_value_def digits_value_def is_digit_def
      SetInt_def Atoi_def ParseInt_def ParseUint_def IntSize_def maxUint64_def
      ErrSyntax_def ErrRange_def Let_def)

section \<open>Properties of the setting registry and the applier\<close>

lemma run_loop_invoke_all:
  "run_loop name value fns errors w =
     (errors @ failures (fst (invoke_all name value fns w)), snd (invoke_all name value fns w))"
proof (induction fns arbitrary: errors w)
  case Nil
  show ?case by simp
next
  case (Cons fn fns)
  obtain r w' where fn: "fn name value w = (r, w')" by (cases "fn name value w")
  show ?case
  proof (cases r)
    case None
    with fn Cons.IH [of errors w'] show ?thesis by (simp split: prod.splits)
  next
    case (Some err)
    with fn Cons.IH [of "errors @ [err]" w'] show ?thesis by (simp split: prod.splits)
  qed
qed

lemma length_invoke_all: "length (fst (invoke_all name value fns w)) = length fns"
proof (induction fns arbitrary: w)
  case Nil
  show ?case by simp
next
  case (Cons fn fns)
  obtain r w' where fn: "fn name value w = (r, w')" by (cases "fn name value w")
  obtain rs w'' where rest: "invoke_all name value fns w' = (rs, w'')"
    by (cases "invoke_all name value fns w'")
  from Cons.IH [of w'] rest have "length rs = length fns" by simp
  with fn rest show ?case by simp
qed

lemma failures_Nil_iff: "failures rs = [] \<longleftrightarrow> (\<forall>r\<in>set rs. r = None)"
  by (induction rs rule: failures.induct) simp_all

lemma set_failures: "set (failures rs) = {err. Some err \<in> set rs}"
  by (induction rs rule: failures.induct) auto

lemma sublist_join_space: "x \<in> set xs \<Longrightarrow> sublist x (join_space xs)"
proof (induction xs rule: join_space.induct)
  case 1
  then show ?case by simp
next
  case (2 y)
  then show ?case by simp
next
  case (3 y z zs)
  show ?case
  proof (cases "x = y")
    case True
    then show ?thesis by simp
  next
    case False
    with "3.prems" have "x \<in> set (z # zs)" by simp
    then have "sublist x (join_space (z # zs))" by (rule "3.IH")
    then obtain ps ss where "join_space (z # zs) = ps @ x @ ss" by (auto simp: sublist_def)
    then have "join_space (y # z # zs) = (y @ '' '' @ ps) @ x @ ss" by simp
    then show ?thesis unfolding sublist_def by blast
  qed
qed

lemma sublist_Sprint_errors:
  assumes "err \<in> set errors"
  shows "sublist (Error Quote err) (Sprint_errors Quote errors)"
proof -
  from assms have "Error Quote err \<in> set (map (Error Quote) errors)" by simp
  then have "sublist (Error Quote err) (join_space (map (Error Quote) errors))"
    by (rule sublist_join_space)
  then obtain ps ss where "join_space (map (Error Quote) errors) = ps @ Error Quote err @ ss"
    by (auto simp: sublist_def)
  then have "Sprint_errors Quote errors = (''['' @ ps) @ Error Quote err @ (ss @ '']'')"
    by (simp add: Sprint_errors_def)
  then show ?thesis unfolding sublist_def by blast
qed

text \<open>
  C6: \<open>run\<close> invokes every function of \<open>fns\<close>, whatever the earlier ones returned:
  the world it leaves is the one after all the invocations. It returns nil when no
  function fails. When one or more fail it returns one error, whose text is the
  bracketed list of the failures and contains the text of every failure.
\<close>

theorem run_collects_all:
  "length (fst (invoke_all name value fns w)) = length fns \<and>
   snd (run Quote name value fns w) = snd (invoke_all name value fns w) \<and>
   ((\<forall>r\<in>set (fst (invoke_all name value fns w)). r = None) \<longrightarrow>
      fst (run Quote name value fns w) = None) \<and>
   ((\<exists>r\<in>set (fst (invoke_all name value fns w)). r \<noteq> None) \<longrightarrow>
      fst (run Quote name value fns w) =
        Some (ErrorString (Sprint_errors Quote (failures (fst (invoke_all name value fns w))))) \<and>
      (\<forall>err. Some err \<in> set (fst (invoke_all name value fns w)) \<longrightarrow>
         sublist (Error Quote err)
           (Error Quote (the (fst (run Quote name value fns w))))))"
proof -
  let ?rs = "fst (invoke_all name value fns w)"
  have r: "run Quote name value fns w =
      (if failures ?rs \<noteq> [] then Some (ErrorString (Sprint_errors Quote (failures ?rs))) else None,
       snd (invoke_all name value fns w))"
    by (simp add: run_def run_loop_invoke_all)
  have a: "length ?rs = length fns" by (rule length_invoke_all)
  have b: "snd (run Quote name value fns w) = snd (invoke_all name value fns w)"
    by (simp add: r)
  have c: "(\<forall>r\<in>set ?rs. r = None) \<longrightarrow> fst (run Quote name value fns w) = None"
    by (simp add: r failures_Nil_iff)
  have d: "(\<exists>r\<in>set ?rs. r \<noteq> None) \<longrightarrow>
      fst (run Quote name value fns w) = Some (ErrorString (Sprint_errors Quote (failures ?rs))) \<and>
      (\<forall>err. Some err \<in> set ?rs \<longrightarrow>
         sublist (Error Quote err) (Error Quote (the (fst (run Quote name value fns w)))))"
  proof (intro impI conjI allI)
    assume ex: "\<exists>r\<in>set ?rs. r \<noteq> None"
    then have ne: "failures ?rs \<noteq> []" by (simp add: failures_Nil_iff)
    then show "fst (run Quote name value fns w) = Some (ErrorString (Sprint_errors Quote (failures ?rs)))"
      by (simp add: r)
    fix err assume "Some err \<in> set ?rs"
    then have "err \<in> set (failures ?rs)" by (simp add: set_failures)
    then have "sublist (Error Quote err) (Sprint_errors Quote (failures ?rs))"
      by (rule sublist_Sprint_errors)
    with ne show "sublist (Error Quote err) (Error Quote (the (fst (run Quote name value fns w))))"
      by (simp add: r)
  qed
  from a b c d show ?thesis by blast
qed

theorem run_collects_all_witness:
  "run id ''cpus'' ''x'' [ok_fn, ok_fn] 0 = (None, 2) \<and>
   run id ''cpus'' ''x'' [fail_fn ''bad'', ok_fn, fail_fn ''worse''] 0 =
     (Some (ErrorString ''[bad cpus=x worse cpus=x]''), 3) \<and>
   sublist ''bad cpus=x'' ''[bad cpus=x worse cpus=x]'' \<and>
   sublist ''worse cpus=x'' ''[bad cpus=x worse cpus=x]''"
  using run_collects_all [of "''cpus''" "''x''" "[ok_fn, ok_fn]" 0 id]
        run_collects_all [of "''cpus''" "''x''" "[fail_fn ''bad'', ok_fn, fail_fn ''worse'']" 0 id]
  by (simp add: run_def ok_fn_def fail_fn_def Sprint_errors_def)

text \<open>
  C9: for a name that some entry of the registry has, \<open>findSetting\<close> returns an entry
  of the registry with that name; for a name that no entry has, it fails with the
  error \<open>Property name ... not found\<close>, which carries the name.
\<close>

theorem findSetting_spec:
  "((\<exists>s\<in>set settings. s_name s = name) \<longrightarrow>
      (\<exists>s. findSetting settings name = Inr s \<and> s \<in> set settings \<and> s_name s = name)) \<and>
   ((\<forall>s\<in>set settings. s_name s \<noteq> name) \<longrightarrow>
      findSetting settings name = Inl (ErrorString (''Property name '' @ name @ '' not found'')))"
  by (induction settings) auto

theorem findSetting_spec_witness:
  "s_name (projr (findSetting example_settings ''dashboard'')) = ''dashboard'' \<and>
   findSetting example_settings ''dashboard'' = Inr (example_settings ! 1) \<and>
   findSetting example_settings ''memory'' = Inl (ErrorString ''Property name memory not found'')"
  using findSetting_spec [of example_settings "''dashboard''"]
        findSetting_spec [of example_settings "''memory''"]
  by (simp add: example_settings_def)

section \<open>Properties of the add-on toggle\<close>

lemma dispatch_no_secret_events:
  "ev \<in> set (fst (dispatch env name enable)) \<Longrightarrow>
   \<not> is_secret_create ev \<and> \<not> is_secret_delete ev \<and> \<not> is_collector ev"
  by (auto simp: dispatch_def transferAddonViaDriver_def deleteAddonViaDriver_def Let_def
      split: sum.splits option.splits if_splits)

lemma dispatch_filters:
  "filter is_secret_create (fst (dispatch env name enable)) = []"
  "filter is_secret_delete (fst (dispatch env name enable)) = []"
  "filter is_collector (fst (dispatch env name enable)) = []"
  using dispatch_no_secret_events [of _ env name enable] by (auto simp: filter_empty_conv)

lemma ParseBool_not_true: "val \<notin> set true_lexemes \<Longrightarrow> fst (ParseBool val) = False"
  by (auto simp: ParseBool_def true_lexemes_def)

lemma ParseBool_true: "val \<in> set true_lexemes \<Longrightarrow> ParseBool val = (True, None)"
  by (auto simp: ParseBool_def true_lexemes_def)

lemma EnableOrDisableAddon_disable:
  assumes "val \<notin> set true_lexemes"
  shows "EnableOrDisableAddon env name val =
     ([Secret_Delete ''kube-system'' ''registry-creds-ecr'',
       Secret_Delete ''kube-system'' ''registry-creds-gcr'',
       Secret_Delete ''kube-system'' ''registry-creds-dpr''] @ fst (dispatch env name False),
      snd (dispatch env name False))"
proof -
  obtain b e where pb: "ParseBool val = (b, e)" by (cases "ParseBool val")
  with ParseBool_not_true [OF assms] have "b = False" by simp
  with pb show ?thesis by (simp add: EnableOrDisableAddon_def split: prod.splits)
qed

lemmas eval_defs = EnableOrDisableAddon_def dispatch_def registry_creds_def ask_ecr_def
  ask_gcr_def ask_docker_def create_secret_def transferAddonViaDriver_def
  deleteAddonViaDriver_def GetClientType_def ParseBool_def syntaxError_def healthy_env_def
  posResponses_def negResponses_def Let_def

text \<open>
  C4: on the disable path, which is taken for every value that is not a true lexeme,
  and for every add-on name, no step of the Credential Collector runs and no
  secret-create request is sent; the secret-delete requests are exactly the three for
  \<open>registry-creds-ecr\<close>, \<open>registry-creds-gcr\<close> and \<open>registry-creds-dpr\<close>.
\<close>

theorem disable_only_deletes:
  "val \<notin> set true_lexemes \<Longrightarrow>
   filter is_collector (fst (EnableOrDisableAddon env name val)) = [] \<and>
   filter is_secret_create (fst (EnableOrDisableAddon env name val)) = [] \<and>
   filter is_secret_delete (fst (EnableOrDisableAddon env name val)) =
     [Secret_Delete ''kube-system'' ''registry-creds-ecr'',
      Secret_Delete ''kube-system'' ''registry-creds-gcr'',
      Secret_Delete ''kube-system'' ''registry-creds-dpr'']"
  by (simp add: EnableOrDisableAddon_disable dispatch_filters)

theorem disable_only_deletes_witness:
  "''false'' \<notin> set true_lexemes \<and>
   filter is_collector (fst (EnableOrDisableAddon healthy_env ''dashboard'' ''false'')) = [] \<and>
   filter is_secret_create (fst (EnableOrDisableAddon healthy_env ''dashboard'' ''false'')) = [] \<and>
   filter is_secret_delete (fst (EnableOrDisableAddon healthy_env ''dashboard'' ''false'')) =
     [Secret_Delete ''kube-system'' ''registry-creds-ecr'',
      Secret_Delete ''kube-system'' ''registry-creds-gcr'',
      Secret_Delete ''kube-system'' ''registry-creds-dpr''] \<and>
   EnableOrDisableAddon healthy_env ''dashboard'' ''false'' =
     ([Secret_Delete ''kube-system'' ''registry-creds-ecr'',
       Secret_Delete ''kube-system'' ''registry-creds-gcr'',
       Secret_Delete ''kube-system'' ''registry-creds-dpr'',
       Client_New ClientTypeRPC, Ensure_Running 1 0, Host_Load 1, SSH_New 2,
       Payload_Delete (Some (Addon ''dashboard'' [''dashboard-rc.yaml'', ''dashboard-svc.yaml''])) 3,
       Client_Close 1],
      Return None)"
  using disable_only_deletes [of "''false''" healthy_env "''dashboard''"]
  by (simp add: eval_defs true_lexemes_def)

text \<open>
  C2: for every raw value outside the boolean lexeme set, \<open>EnableOrDisableAddon\<close>
  goes on past the parse error. It does what it does for \<open>false\<close>: the three fixed
  secrets are deleted, then the dispatch runs with the flag false, which sends the
  payload deletion once the client, the cluster, the host and SSH are there. What it
  returns is the result of that dispatch, never the parse error, bare or wrapped.
\<close>

theorem parse_failure_runs_disable:
  "val \<notin> set true_lexemes \<union> set false_lexemes \<Longrightarrow>
   EnableOrDisableAddon env name val = EnableOrDisableAddon env name ''false'' \<and>
   EnableOrDisableAddon env name val =
     ([Secret_Delete ''kube-system'' ''registry-creds-ecr'',
       Secret_Delete ''kube-system'' ''registry-creds-gcr'',
       Secret_Delete ''kube-system'' ''registry-creds-dpr''] @ fst (dispatch env name False),
      snd (dispatch env name False)) \<and>
   snd (EnableOrDisableAddon env name val) \<noteq> Return (Some (syntaxError ''ParseBool'' val)) \<and>
   snd (EnableOrDisableAddon env name val) \<noteq>
     Return (Some (Wrapf (syntaxError ''ParseBool'' val)
       (''error attempted to parse enabled/disable value addon '' @ name))) \<and>
   (\<forall>api host client.
      NewAPIClient env (GetClientType (useVendoredDriver env)) = Inr api \<and>
      EnsureMinikubeRunningOrExit env api 0 = None \<and>
      CheckIfApiExistsAndLoad env api = Inr host \<and>
      NewSSHClient env (Driver host) = Inr client \<longrightarrow>
      Payload_Delete (Addons env name) client \<in> set (fst (EnableOrDisableAddon env name val)))"
proof -
  assume "val \<notin> set true_lexemes \<union> set false_lexemes"
  then have nt: "val \<notin> set true_lexemes" by simp
  have nf: "''false'' \<notin> set true_lexemes" by (simp add: true_lexemes_def)
  note a = EnableOrDisableAddon_disable [OF nt, of env name]
  note b = EnableOrDisableAddon_disable [OF nf, of env name]
  have c: "snd (dispatch env name False) \<noteq> Return (Some (syntaxError ''ParseBool'' val))"
    by (simp add: dispatch_def deleteAddonViaDriver_def syntaxError_def Let_def
        split: sum.splits option.splits)
  have d: "snd (dispatch env name False) \<noteq>
     Return (Some (Wrapf (syntaxError ''ParseBool'' val)
       (''error attempted to parse enabled/disable value addon '' @ name)))"
    by (simp add: dispatch_def deleteAddonViaDriver_def syntaxError_def Let_def
        split: sum.splits option.splits)
  have e: "\<forall>api host client.
      NewAPIClient env (GetClientType (useVendoredDriver env)) = Inr api \<and>
      EnsureMinikubeRunningOrExit env api 0 = None \<and>
      CheckIfApiExistsAndLoad env api = Inr host \<and>
      NewSSHClient env (Driver host) = Inr client \<longrightarrow>
      Payload_Delete (Addons env name) client \<in> set (fst (dispatch env name False))"
    by (simp add: dispatch_def deleteAddonViaDriver_def Let_def split: option.splits)
  from a b c d e show ?thesis by simp
qed

theorem parse_failure_runs_disable_witness:
  "''maybe'' \<notin> set true_lexemes \<union> set false_lexemes \<and>
   EnableOrDisableAddon healthy_env ''dashboard'' ''maybe'' =
     ([Secret_Delete ''kube-system'' ''registry-creds-ecr'',
       Secret_Delete ''kube-system'' ''registry-creds-gcr'',
       Secret_Delete ''kube-system'' ''registry-creds-dpr'',
       Client_New ClientTypeRPC, Ensure_Running 1 0, Host_Load 1, SSH_New 2,
       Payload_Delete (Some (Addon ''dashboard'' [''dashboard-rc.yaml'', ''dashboard-svc.yaml''])) 3,
       Client_Close 1],
      Return None) \<and>
   EnableOrDisableAddon healthy_env ''dashboard'' ''maybe'' =
     EnableOrDisableAddon healthy_env ''dashboard'' ''false''"
  using parse_failure_runs_disable [of "''maybe''" healthy_env "''dashboard''"]
  by (simp add: eval_defs true_lexemes_def false_lexemes_def)

end
